theory Spec2Isabelle
  imports Main "HOL-Library.Sublist"
begin

section \<open>Python preliminaries\<close>

text \<open>
  A string is the list of its characters, a character being a code point below 256 (ASCII
  and Latin-1). \<open>str.lower\<close> maps the upper-case letters of that range, \<open>A\<close> to \<open>Z\<close> and the
  code points 192 to 222 except 215, to the letter 32 places up.
\<close>

definition char_lower :: "char \<Rightarrow> char" where
  "char_lower c =
     (let n = (of_char c :: nat)
      in if (65 \<le> n \<and> n \<le> 90) \<or> (192 \<le> n \<and> n \<le> 222 \<and> n \<noteq> 215) then char_of (n + 32) else c)"

definition lower :: "string \<Rightarrow> string" where
  "lower s = map char_lower s"

text \<open>\<open>s.startswith(p)\<close> and \<open>s.endswith(p)\<close>.\<close>

definition startswith :: "string \<Rightarrow> string \<Rightarrow> bool" where
  "startswith s p = (take (length p) s = p)"

definition endswith :: "string \<Rightarrow> string \<Rightarrow> bool" where
  "endswith s p = (length p \<le> length s \<and> drop (length s - length p) s = p)"

text \<open>\<open>p in s\<close> for strings: \<open>p\<close> occurs in \<open>s\<close> as a contiguous substring.\<close>

primrec contains :: "string \<Rightarrow> string \<Rightarrow> bool" where
  "contains [] p = (p = [])"
| "contains (c # cs) p = (startswith (c # cs) p \<or> contains cs p)"


text \<open>\<open>s.replace(p, '')\<close> for a non-empty \<open>p\<close>: every occurrence is removed, left to right.\<close>

fun remove_all :: "string \<Rightarrow> string \<Rightarrow> string" where
  "remove_all [] p = []"
| "remove_all (c # cs) p =
     (if p \<noteq> [] \<and> startswith (c # cs) p then remove_all (drop (length p - 1) cs) p
      else c # remove_all cs p)"

text \<open>The characters for which \<open>str.isspace\<close> holds.\<close>

definition is_space :: "char \<Rightarrow> bool" where
  "is_space c =
     (let n = (of_char c :: nat)
      in (9 \<le> n \<and> n \<le> 13) \<or> (28 \<le> n \<and> n \<le> 32) \<or> n = 133 \<or> n = 160)"

text \<open>\<open>s.strip(chars)\<close>, \<open>s.strip()\<close>, \<open>s.split()\<close> and \<open>sep.join(parts)\<close>.\<close>

definition strip_chars :: "(char \<Rightarrow> bool) \<Rightarrow> string \<Rightarrow> string" where
  "strip_chars P s = rev (dropWhile P (rev (dropWhile P s)))"

definition strip :: "string \<Rightarrow> string" where
  "strip s = strip_chars is_space s"

primrec split_acc :: "string \<Rightarrow> string \<Rightarrow> string list" where
  "split_acc [] cur = (if cur = [] then [] else [cur])"
| "split_acc (c # cs) cur =
     (if is_space c then (if cur = [] then split_acc cs [] else cur # split_acc cs [])
      else split_acc cs (cur @ [c]))"

definition split_ws :: "string \<Rightarrow> string list" where
  "split_ws s = split_acc s []"

fun join :: "string \<Rightarrow> string list \<Rightarrow> string" where
  "join sep [] = []"
| "join sep [x] = x"
| "join sep (x # y # ys) = x @ sep @ join sep (y # ys)"

text \<open>
  A Python \<open>set\<close> of strings is kept as the list of its elements in the order of their
  first insertion: adding an element that is present leaves the set as it is. The order in
  which \<open>list(s)\<close> enumerates the hash table is not fixed by the language; it follows the
  slots that the elements got in the table, a function of that insertion history, passed to
  the model as the parameter \<open>table_slot\<close> below.
\<close>

type_synonym pyset = "string list"

definition set_add :: "string \<Rightarrow> pyset \<Rightarrow> pyset" where
  "set_add x s = (if x \<in> set s then s else s @ [x])"

definition set_update :: "string list \<Rightarrow> pyset \<Rightarrow> pyset" where
  "set_update xs s = fold set_add xs s"

definition set_of_list :: "string list \<Rightarrow> pyset" where
  "set_of_list xs = set_update xs []"

text \<open>A \<open>dict\<close> from platform name to URL, as the association list of its items in insertion order.\<close>

type_synonym pydict = "(string \<times> string) list"

definition has_key :: "pydict \<Rightarrow> string \<Rightarrow> bool" where
  "has_key d k = (k \<in> set (map fst d))"

section \<open>website\_enrichment.py: the e-mail filters\<close>

text \<open>\<open>WebsiteEnrichment.excluded_email_patterns\<close>, in the order of the source.\<close>

definition excluded_email_patterns :: "string list" where
  "excluded_email_patterns =
     [''example.com'', ''yourdomain.com'', ''domain.com'', ''test.com'', ''email.com'',
      ''noreply'', ''no-reply'', ''donotreply'', ''privacy@'', ''legal@'', ''abuse@'',
      ''postmaster@'', ''admin@'', ''webmaster@'', ''info@example'', ''contact@example'',
      ''support@example'']"

definition spam_tlds :: "string list" where
  "spam_tlds = [''.tk'', ''.ml'', ''.ga'', ''.cf'', ''.gq'']"

text \<open>
  \<open>_is_business_email\<close>: the first loop returns False at the first excluded pattern that
  occurs in the lower-cased address; then the ending is compared with the five suffixes.
\<close>

definition is_business_email :: "string \<Rightarrow> bool" where
  "is_business_email email =
     (let email_lower = lower email in
      if list_ex (\<lambda>pattern. contains email_lower pattern) excluded_email_patterns then False
      else if list_ex (\<lambda>tld. endswith email_lower tld) spam_tlds then False
      else True)"

text \<open>\<open>_is_valid_email\<close>. \<open>email.split('@')[1]\<close> is the text between the first and the second \<open>@\<close>.\<close>

definition is_valid_email :: "string \<Rightarrow> bool" where
  "is_valid_email email =
     (if email = [] \<or> length email < 5 then False
      else if CHR ''@'' \<notin> set email \<or>
              CHR ''.'' \<notin> set (takeWhile (\<lambda>c. c \<noteq> CHR ''@'') (tl (dropWhile (\<lambda>c. c \<noteq> CHR ''@'') email)))
        then False
      else if length email > 100 then False
      else True)"

text \<open>\<open>_clean_phone\<close>: strip, then collapse every run of whitespace to one space.\<close>

definition clean_phone :: "string \<Rightarrow> string" where
  "clean_phone phone = join '' '' (split_ws (strip phone))"

section \<open>website\_enrichment.py: libraries, pages and the network\<close>

text \<open>
  The module calls three libraries whose code is not part of the repository: \<open>re\<close>,
  \<open>urllib.parse\<close> and the hash table behind \<open>set\<close>. Their results are parameters of the model.
  \<^item> \<open>table_slot s x\<close>: the slot of the element \<open>x\<close> in the hash table of the set with the
    insertion history \<open>s\<close>;
  \<^item> \<open>email_findall\<close>: \<open>email_pattern.findall\<close>;
  \<^item> \<open>phone_findall i\<close>: \<open>phone_patterns[i].findall\<close>, for the four patterns;
  \<^item> \<open>social_search p\<close>: whether \<open>social_patterns[p].search\<close> finds a match;
  \<^item> \<open>social_findall p\<close>: \<open>social_patterns[p].findall\<close>. Each of the ten patterns has exactly one
    capturing group, so \<open>findall\<close> returns the list of the group's texts (the profile handle
    for nine platforms, the number for whatsapp), not the whole matches;
  \<^item> \<open>street_search\<close>, \<open>zip_search\<close>: whether the two address expressions match somewhere;
  \<^item> \<open>urljoin\<close>, \<open>None\<close> when it raises \<open>ValueError\<close>; and \<open>url_origin\<close>, the
    \<open>scheme://netloc\<close> that \<open>urlparse\<close> gives, \<open>None\<close> when \<open>urlparse\<close> raises \<open>ValueError\<close>.
\<close>

record pylib =
  table_slot :: "pyset \<Rightarrow> string \<Rightarrow> nat"
  email_findall :: "string \<Rightarrow> string list"
  phone_findall :: "nat \<Rightarrow> string \<Rightarrow> string list"
  social_search :: "string \<Rightarrow> string \<Rightarrow> bool"
  social_findall :: "string \<Rightarrow> string \<Rightarrow> string list"
  street_search :: "string \<Rightarrow> bool"
  zip_search :: "string \<Rightarrow> bool"
  urljoin :: "string \<Rightarrow> string \<Rightarrow> string option"
  url_origin :: "string \<Rightarrow> string option"

text \<open>\<open>list(s)\<close>: the elements of the set in the order of their slots.\<close>

definition list_of_set :: "pylib \<Rightarrow> pyset \<Rightarrow> string list" where
  "list_of_set lib s = sort_key (table_slot lib s) s"

text \<open>
  What \<open>json.loads(script.string)\<close> gives for one \<open>application/ld+json\<close> script, as far as
  \<open>_extract_addresses\<close> looks at it: the call raised, the value is not a dict, the dict has no
  \<open>address\<close>, the address is not a dict, or the four fields of the address as the f-string
  prints them (a missing field is the empty string).
\<close>

datatype ld_json =
    LdInvalid
  | LdNotDict
  | LdNoAddress
  | LdAddressNotDict
  | LdAddress string string string string

text \<open>
  A fetched page as BeautifulSoup presents it to the extractors: the raw markup, the visible
  text \<open>soup.get_text()\<close>, every \<open><a href=...>\<close> in document order as (href, text), the texts
  of the sections selected for e-mails (footer, header, div with a class matching
  contact, footer or header) and for phones (class matching contact, phone, tel or call), the
  texts of the address containers, and the JSON-LD scripts.
\<close>

record page =
  html :: string
  text_content :: string
  a_tags :: "(string \<times> string) list"
  email_sections :: "string list"
  phone_sections :: "string list"
  address_tags :: "string list"
  ld_scripts :: "ld_json list"

text \<open>
  The three network operations of the module. \<open>None\<close> is any exception of the request
  (connection error, timeout, undecodable body); otherwise the status code, with the parsed
  page for a GET.
\<close>

datatype request =
    Fetch string nat
  | Probe string
  | Home string nat

record web =
  fetch :: "string \<Rightarrow> nat \<Rightarrow> (nat \<times> page) option"
  probe :: "string \<Rightarrow> nat option"
  home :: "string \<Rightarrow> nat \<Rightarrow> (nat \<times> page) option"

section \<open>website\_enrichment.py: the extractors of one page\<close>

text \<open>The exceptions that the model tells apart.\<close>

datatype error = ValueError | BrowserError

text \<open>The keys of \<open>social_patterns\<close>, in the order in which the dict is built and iterated.\<close>

definition platforms :: "string list" where
  "platforms = [''facebook'', ''instagram'', ''twitter'', ''linkedin'', ''youtube'', ''tiktok'',
                ''pinterest'', ''snapchat'', ''whatsapp'', ''telegram'']"

text \<open>\<open>_extract_emails\<close>, step 1: the targets of the \<open>mailto:\<close> links that are valid, lower-cased.\<close>

definition mailto_emails :: "page \<Rightarrow> string list" where
  "mailto_emails pg =
     map lower
       (filter is_valid_email
          (map (\<lambda>href. strip (takeWhile (\<lambda>c. c \<noteq> CHR ''?'') (remove_all href ''mailto:'')))
             (filter (\<lambda>href. startswith href ''mailto:'') (map fst (a_tags pg)))))"

text \<open>Steps 2 to 4: the matches that pass both filters, lower-cased.\<close>

definition business_emails :: "string list \<Rightarrow> string list" where
  "business_emails found =
     map lower (filter (\<lambda>email. is_valid_email email \<and> is_business_email email) found)"

definition extract_emails :: "pylib \<Rightarrow> page \<Rightarrow> string list" where
  "extract_emails lib pg =
     (let emails = set_update (mailto_emails pg) [];
          emails = set_update (business_emails (email_findall lib (text_content pg))) emails;
          emails = set_update (business_emails (email_findall lib (html pg))) emails;
          emails = fold (\<lambda>section_text. set_update (business_emails (email_findall lib section_text)))
                     (email_sections pg) emails
      in list_of_set lib emails)"

text \<open>\<open>_extract_phones\<close>. A candidate is added when its cleaned text has at least 10 characters.\<close>

definition keep_phones :: "string list \<Rightarrow> string list" where
  "keep_phones found = filter (\<lambda>phone. phone \<noteq> [] \<and> length phone \<ge> 10) (map clean_phone found)"

definition tel_phones :: "page \<Rightarrow> string list" where
  "tel_phones pg =
     keep_phones (map (\<lambda>href. strip (remove_all href ''tel:''))
                    (filter (\<lambda>href. startswith href ''tel:'') (map fst (a_tags pg))))"

definition pattern_phones :: "pylib \<Rightarrow> string \<Rightarrow> pyset \<Rightarrow> pyset" where
  "pattern_phones lib txt phones =
     fold (\<lambda>i. set_update (keep_phones (phone_findall lib i txt))) [0, 1, 2, 3] phones"

definition extract_phones :: "pylib \<Rightarrow> page \<Rightarrow> string list" where
  "extract_phones lib pg =
     (let phones = set_update (tel_phones pg) [];
          phones = pattern_phones lib (text_content pg) phones;
          phones = fold (pattern_phones lib) (phone_sections pg) phones
      in take 5 (list_of_set lib phones))"

text \<open>
  \<open>_extract_social_media\<close>, first loop. For one anchor the platforms are tried in order; a
  platform that already has a link is skipped. On a match the href gets the scheme prefix when
  it does not start with \<open>http\<close>, and the prefixed href is what the later platforms of the same
  anchor are matched against.
\<close>

definition social_anchor_step :: "pylib \<Rightarrow> string \<Rightarrow> string \<times> pydict \<Rightarrow> string \<times> pydict" where
  "social_anchor_step lib platform st =
     (let href = fst st; social_links = snd st in
      if \<not> has_key social_links platform \<and> social_search lib platform href then
        (let href' = (if \<not> startswith href ''http'' then ''https://'' @ href else href)
         in (href', social_links @ [(platform, href')]))
      else (href, social_links))"

definition social_anchor :: "pylib \<Rightarrow> string \<Rightarrow> pydict \<Rightarrow> pydict" where
  "social_anchor lib href social_links =
     snd (fold (social_anchor_step lib) platforms (href, social_links))"

text \<open>
  The loop over the anchors. An href that starts with \<open>/\<close> is joined with the base URL first;
  when \<open>urljoin\<close> raises, the exception leaves \<open>_extract_social_media\<close>.
\<close>

fun social_anchors :: "pylib \<Rightarrow> string \<Rightarrow> string list \<Rightarrow> pydict \<Rightarrow> error + pydict" where
  "social_anchors lib base_url [] social_links = Inr social_links"
| "social_anchors lib base_url (href # hrefs) social_links =
     (if startswith href ''/'' then
        (case urljoin lib base_url href of
           None \<Rightarrow> Inl ValueError
         | Some joined \<Rightarrow> social_anchors lib base_url hrefs (social_anchor lib joined social_links))
      else social_anchors lib base_url hrefs (social_anchor lib href social_links))"

text \<open>
  Second loop, over the raw markup, for the platforms still missing. \<open>matches[0]\<close> is a
  \<open>str\<close> (the text of the pattern's group), so the conditional expression always takes its
  first branch.
\<close>

definition social_html_step :: "pylib \<Rightarrow> string \<Rightarrow> string \<Rightarrow> pydict \<Rightarrow> pydict" where
  "social_html_step lib markup platform social_links =
     (if \<not> has_key social_links platform then
        (case social_findall lib platform markup of
           [] \<Rightarrow> social_links
         | m # ms \<Rightarrow>
             (let url = m;
                  url = (if \<not> startswith url ''http'' then ''https://'' @ url else url)
              in social_links @ [(platform, url)]))
      else social_links)"

definition extract_social_media :: "pylib \<Rightarrow> page \<Rightarrow> string \<Rightarrow> error + pydict" where
  "extract_social_media lib pg base_url =
     (case social_anchors lib base_url (map fst (a_tags pg)) [] of
        Inl e \<Rightarrow> Inl e
      | Inr social_links \<Rightarrow> Inr (fold (social_html_step lib (html pg)) platforms social_links))"

text \<open>\<open>_extract_addresses\<close>.\<close>

definition tag_addresses :: "pylib \<Rightarrow> page \<Rightarrow> string list" where
  "tag_addresses lib pg =
     map (take 200) (filter (\<lambda>t. street_search lib t \<and> zip_search lib t) (address_tags pg))"

fun ld_address :: "ld_json \<Rightarrow> string list" where
  "ld_address (LdAddress street city state zip_code) =
     (let full_address =
            strip_chars (\<lambda>c. c = CHR '','' \<or> c = CHR '' '')
              (street @ '', '' @ city @ '', '' @ state @ '' '' @ zip_code)
      in if full_address \<noteq> [] then [full_address] else [])"
| "ld_address _ = []"

definition extract_addresses :: "pylib \<Rightarrow> page \<Rightarrow> string list" where
  "extract_addresses lib pg =
     (let addresses = set_update (tag_addresses lib pg) [];
          addresses = set_update (concat (map ld_address (ld_scripts pg))) addresses
      in take 3 (list_of_set lib addresses))"

text \<open>The dict that \<open>_extract_from_page\<close> returns: its four keys are always present.\<close>

record page_data =
  emails :: "string list"
  phones :: "string list"
  socialMedia :: pydict
  addresses :: "string list"

definition empty_page_data :: page_data where
  "empty_page_data = \<lparr>emails = [], phones = [], socialMedia = [], addresses = []\<rparr>"

text \<open>
  The four assignments of \<open>_extract_from_page\<close> for a page that was fetched. The social
  links are the only extractor that can raise; the handler then returns the dict with the
  e-mails and phones assigned so far, and the addresses are never extracted.
\<close>

definition extract_page :: "pylib \<Rightarrow> page \<Rightarrow> string \<Rightarrow> page_data" where
  "extract_page lib pg url =
     (case extract_social_media lib pg url of
        Inl e \<Rightarrow>
          \<lparr>emails = extract_emails lib pg, phones = extract_phones lib pg,
           socialMedia = [], addresses = []\<rparr>
      | Inr social_links \<Rightarrow>
          \<lparr>emails = extract_emails lib pg, phones = extract_phones lib pg,
           socialMedia = social_links, addresses = extract_addresses lib pg\<rparr>)"

text \<open>
  \<open>_extract_from_page\<close>, with the request it makes. A failed request and a status other
  than 200 both leave the empty dict.
\<close>

definition extract_from_page :: "pylib \<Rightarrow> web \<Rightarrow> string \<Rightarrow> nat \<Rightarrow> page_data \<times> request list" where
  "extract_from_page lib w url timeout =
     (case fetch w url timeout of
        None \<Rightarrow> (empty_page_data, [Fetch url timeout])
      | Some (status, pg) \<Rightarrow>
          if status \<noteq> 200 then (empty_page_data, [Fetch url timeout])
          else (extract_page lib pg url, [Fetch url timeout]))"

section \<open>website\_enrichment.py: merging and the whole enrichment\<close>

text \<open>The accumulator \<open>enrichment_data\<close> of \<open>enrich_from_website\<close>: all five keys are present.\<close>

record enrichment =
  e_emails :: "string list"
  e_phones :: "string list"
  e_socialMedia :: pydict
  e_contactPageUrl :: "string option"
  e_addresses :: "string list"

definition empty_enrichment :: enrichment where
  "empty_enrichment =
     \<lparr>e_emails = [], e_phones = [], e_socialMedia = [], e_contactPageUrl = None, e_addresses = []\<rparr>"

text \<open>
  The \<open>source\<close> argument of \<open>_merge_data\<close> is a dict in which each key may be missing
  (\<open>None\<close>). For \<open>contactPageUrl\<close>, \<open>None\<close> also stands for a value that is not truthy.
\<close>

record source =
  s_emails :: "string list option"
  s_phones :: "string list option"
  s_socialMedia :: "pydict option"
  s_addresses :: "string list option"
  s_contactPageUrl :: "string option"

definition source_of_page :: "page_data \<Rightarrow> source" where
  "source_of_page d =
     \<lparr>s_emails = Some (emails d), s_phones = Some (phones d), s_socialMedia = Some (socialMedia d),
      s_addresses = Some (addresses d), s_contactPageUrl = None\<rparr>"

definition merge_social :: "string \<times> string \<Rightarrow> pydict \<Rightarrow> pydict" where
  "merge_social item target_social =
     (if \<not> has_key target_social (fst item) then target_social @ [item] else target_social)"

definition merge_data :: "enrichment \<Rightarrow> source \<Rightarrow> enrichment" where
  "merge_data target src =
     (let target = (case s_emails src of None \<Rightarrow> target
                    | Some xs \<Rightarrow> target\<lparr>e_emails := e_emails target @ xs\<rparr>);
          target = (case s_phones src of None \<Rightarrow> target
                    | Some xs \<Rightarrow> target\<lparr>e_phones := e_phones target @ xs\<rparr>);
          target = (case s_socialMedia src of None \<Rightarrow> target
                    | Some d \<Rightarrow> target\<lparr>e_socialMedia := fold merge_social d (e_socialMedia target)\<rparr>);
          target = (case s_addresses src of None \<Rightarrow> target
                    | Some xs \<Rightarrow> target\<lparr>e_addresses := e_addresses target @ xs\<rparr>);
          target = (case s_contactPageUrl src of None \<Rightarrow> target
                    | Some u \<Rightarrow> if u \<noteq> [] then target\<lparr>e_contactPageUrl := Some u\<rparr> else target)
      in target)"

text \<open>\<open>contact_paths\<close>, in the order of the source.\<close>

definition contact_paths :: "string list" where
  "contact_paths = [''/contact'', ''/contact-us'', ''/contactus'', ''/about'', ''/about-us'',
                    ''/aboutus'', ''/get-in-touch'', ''/reach-us'', ''/support'', ''/help'']"

text \<open>
  \<open>_find_contact_page\<close>, first loop: one HEAD request per path until one answers 200. A
  request that raises is skipped.
\<close>

fun probe_paths :: "web \<Rightarrow> string \<Rightarrow> string list \<Rightarrow> string option \<times> request list" where
  "probe_paths w base_domain [] = (None, [])"
| "probe_paths w base_domain (path # paths) =
     (let contact_url = base_domain @ path in
      if probe w contact_url = Some 200 then (Some contact_url, [Probe contact_url])
      else (let r = probe_paths w base_domain paths in (fst r, Probe contact_url # snd r)))"

text \<open>
  Second part: the first anchor of the home page whose text has a keyword and whose href is
  usable. When \<open>urljoin\<close> raises, the handler of this part makes the function return \<open>None\<close>.
\<close>

fun scan_anchors :: "pylib \<Rightarrow> string \<Rightarrow> (string \<times> string) list \<Rightarrow> string option" where
  "scan_anchors lib base_url [] = None"
| "scan_anchors lib base_url ((href, txt) # rest) =
     (if list_ex (\<lambda>keyword. contains (lower txt) keyword) [''contact'', ''about'', ''reach'', ''touch'']
      then (if startswith href ''/'' then urljoin lib base_url href
            else if startswith href ''http'' then Some href
            else scan_anchors lib base_url rest)
      else scan_anchors lib base_url rest)"

definition find_contact_page ::
  "pylib \<Rightarrow> web \<Rightarrow> string \<Rightarrow> nat \<Rightarrow> (error + string option) \<times> request list" where
  "find_contact_page lib w base_url timeout =
     (case url_origin lib base_url of
        None \<Rightarrow> (Inl ValueError, [])
      | Some base_domain \<Rightarrow>
          (case probe_paths w base_domain contact_paths of
             (Some contact_url, reqs) \<Rightarrow> (Inr (Some contact_url), reqs)
           | (None, reqs) \<Rightarrow>
               (case home w base_url timeout of
                  None \<Rightarrow> (Inr None, reqs @ [Home base_url timeout])
                | Some (status, pg) \<Rightarrow>
                    if status = 200
                    then (Inr (scan_anchors lib base_url (a_tags pg)), reqs @ [Home base_url timeout])
                    else (Inr None, reqs @ [Home base_url timeout]))))"

text \<open>Step 3 of \<open>enrich_from_website\<close>: deduplicate and cut the three lists.\<close>

definition finalize :: "pylib \<Rightarrow> enrichment \<Rightarrow> enrichment" where
  "finalize lib enrichment_data =
     enrichment_data
       \<lparr>e_emails := take 5 (list_of_set lib (set_of_list (e_emails enrichment_data))),
        e_phones := take 5 (list_of_set lib (set_of_list (e_phones enrichment_data))),
        e_addresses := take 3 (list_of_set lib (set_of_list (e_addresses enrichment_data)))\<rparr>"

text \<open>
  \<open>enrich_from_website\<close>, with the requests it makes. The URL is \<open>None\<close> when the caller passes
  \<open>None\<close>. The only call inside the \<open>try\<close> that can raise is \<open>_find_contact_page\<close> (its
  \<open>urlparse\<close> stands outside its own handlers); the handler then returns the accumulator as it
  is, before step 3.
\<close>

definition enrich_from_website ::
  "pylib \<Rightarrow> web \<Rightarrow> string option \<Rightarrow> bool \<Rightarrow> nat \<Rightarrow> enrichment \<times> request list" where
  "enrich_from_website lib w website_url check_contact_page timeout =
     (case website_url of
        None \<Rightarrow> (empty_enrichment, [])
      | Some url \<Rightarrow>
          if url = [] then (empty_enrichment, [])
          else
            (let (main_page_data, reqs1) = extract_from_page lib w url timeout;
                 enrichment_data = merge_data empty_enrichment (source_of_page main_page_data)
             in if check_contact_page then
                  (case find_contact_page lib w url timeout of
                     (Inl e, reqs2) \<Rightarrow> (enrichment_data, reqs1 @ reqs2)
                   | (Inr None, reqs2) \<Rightarrow> (finalize lib enrichment_data, reqs1 @ reqs2)
                   | (Inr (Some contact_page_url), reqs2) \<Rightarrow>
                       if contact_page_url = [] then (finalize lib enrichment_data, reqs1 @ reqs2)
                       else
                         (let enrichment_data = enrichment_data\<lparr>e_contactPageUrl := Some contact_page_url\<rparr>;
                              (contact_data, reqs3) = extract_from_page lib w contact_page_url timeout;
                              enrichment_data = merge_data enrichment_data (source_of_page contact_data)
                          in (finalize lib enrichment_data, reqs1 @ reqs2 @ reqs3)))
                else (finalize lib enrichment_data, reqs1)))"

section \<open>google\_maps\_optimized.py: the discovery loop\<close>

text \<open>
  The search page as \<open>_search_places_optimized\<close> sees it. \<open>new_page_ok\<close>: \<open>context.new_page()\<close>
  (it stands outside the \<open>try\<close>) and the \<open>page.close()\<close> of the \<open>finally\<close> return.
  \<open>goto_ok\<close>: \<open>page.goto\<close> returns. \<open>visible_links k\<close>:
  what \<open>query_selector_all\<close> gives when \<open>scroll_attempts\<close> is \<open>k\<close>, \<open>None\<close> when the call raises;
  a link is its \<open>href\<close>, or \<open>None\<close> when \<open>get_attribute\<close> raises or returns \<open>None\<close>.
  \<open>scroll_ok k\<close>: the scroll after that collection does not raise. Every iteration that goes
  on increments \<open>scroll_attempts\<close>, so the counter identifies the iteration.
\<close>

record surface =
  new_page_ok :: bool
  goto_ok :: bool
  visible_links :: "nat \<Rightarrow> string option list option"
  scroll_ok :: "nat \<Rightarrow> bool"

record scroll_state =
  scroll_attempts :: nat
  no_new_results_count :: nat
  place_urls :: pyset

definition max_scroll_attempts :: nat where
  "max_scroll_attempts = 30"

text \<open>The inner \<open>for link in links\<close> loop.\<close>

definition add_link :: "string option \<Rightarrow> pyset \<Rightarrow> pyset" where
  "add_link link urls =
     (case link of
        None \<Rightarrow> urls
      | Some href \<Rightarrow> if href \<noteq> [] \<and> contains href ''/maps/place/'' then set_add href urls else urls)"

definition collect_links :: "string option list \<Rightarrow> pyset \<Rightarrow> pyset" where
  "collect_links links urls = fold add_link links urls"

text \<open>
  One pass through the body of the \<open>while\<close> loop. \<open>Break\<close> is every way of leaving the loop
  from inside: the two \<open>break\<close>s on the counts, the \<open>break\<close> of the scroll's handler, and an
  exception of \<open>query_selector_all\<close>, which the function's handler catches with the set as
  it was.
\<close>

datatype step = Next scroll_state | Break scroll_state

definition scroll_iteration :: "surface \<Rightarrow> int \<Rightarrow> scroll_state \<Rightarrow> step" where
  "scroll_iteration sf max_results st =
     (let prev_count = length (place_urls st) in
      case visible_links sf (scroll_attempts st) of
        None \<Rightarrow> Break st
      | Some links \<Rightarrow>
          (let urls = collect_links links (place_urls st);
               new_count = length urls;
               no_new = (if new_count = prev_count then no_new_results_count st + 1 else 0);
               st' = st\<lparr>no_new_results_count := no_new, place_urls := urls\<rparr>
           in if int (length urls) \<ge> max_results then Break st'
              else if no_new \<ge> 3 then Break st'
              else if \<not> scroll_ok sf (scroll_attempts st) then Break st'
              else Next (st'\<lparr>scroll_attempts := scroll_attempts st + 1\<rparr>)))"

text \<open>
  The \<open>while\<close> loop. Its condition compares the integer \<open>len(place_urls)\<close> with the float
  \<open>max_results * 1.5\<close>; Python compares the two exactly, and for \<open>|max_results| < 2^52\<close> the
  product is exact, so the test is \<open>2 * len < 3 * max_results\<close> on integers.
\<close>

function scroll_loop :: "surface \<Rightarrow> int \<Rightarrow> scroll_state \<Rightarrow> scroll_state" where
  "scroll_loop sf max_results st =
     (if scroll_attempts st < max_scroll_attempts \<and>
         2 * int (length (place_urls st)) < 3 * max_results
      then (case scroll_iteration sf max_results st of
              Break st' \<Rightarrow> st'
            | Next st' \<Rightarrow> scroll_loop sf max_results st')
      else st)"
  by pat_completeness auto
termination
  by (relation "measure (\<lambda>(sf, max_results, st). max_scroll_attempts - scroll_attempts st)")
     (auto simp: scroll_iteration_def Let_def split: option.splits if_splits)

declare scroll_loop.simps [simp del]

definition initial_scroll_state :: scroll_state where
  "initial_scroll_state = \<lparr>scroll_attempts = 0, no_new_results_count = 0, place_urls = []\<rparr>"

text \<open>
  \<open>_search_places_optimized\<close>. A failure of \<open>new_page\<close> or \<open>close\<close> leaves the function as an
  exception; a failure of \<open>goto\<close> is caught and the empty set is returned.
\<close>

definition search_places_optimized :: "pylib \<Rightarrow> surface \<Rightarrow> int \<Rightarrow> error + string list" where
  "search_places_optimized lib sf max_results =
     (if \<not> new_page_ok sf then Inl BrowserError
      else if \<not> goto_ok sf then Inr (list_of_set lib [])
      else Inr (list_of_set lib (place_urls (scroll_loop sf max_results initial_scroll_state))))"

section \<open>google\_maps\_optimized.py: the detail page\<close>

text \<open>A Python value that is a string or \<open>None\<close>; a string is truthy when it is not empty.\<close>

datatype pyvalue = PyNone | Str string

fun truthy :: "pyvalue \<Rightarrow> string option" where
  "truthy PyNone = None"
| "truthy (Str s) = (if s = [] then None else Some s)"

text \<open>One entry of the list that \<open>_extract_reviews\<close> returns.\<close>

record review =
  reviewerName :: "pyvalue option"
  review_rating :: "nat option"
  review_text :: "pyvalue option"
  review_date :: "pyvalue option"

text \<open>
  The detail page as the selectors of \<open>_extract_place_details_optimized\<close> see it: for each
  selector \<open>None\<close> when no element matches, else the attribute or text that is read from the
  element. \<open>_extract_images\<close> and \<open>_extract_reviews\<close> catch their own exceptions and return
  lists, which the page carries as they are.
\<close>

record dom =
  title_elem :: "pyvalue option"
  category_elem :: "pyvalue option"
  rating_elem :: "pyvalue option"
  reviews_elem :: "pyvalue option"
  address_elem :: "pyvalue option"
  phone_elem :: "pyvalue option"
  website_elem :: "pyvalue option"
  hours_button :: "pyvalue option"
  price_elem :: "pyvalue option"
  page_images :: "string list"
  page_reviews :: "review list"

text \<open>
  The browser. \<open>context_ok\<close>: \<open>create_context\<close> and the \<open>context.close()\<close> of the \<open>finally\<close>
  return. \<open>search_surface q\<close>: the search page for
  the query \<open>q\<close>. \<open>task_escapes url\<close>: an exception leaves the extraction coroutine of \<open>url\<close>
  (\<open>context.new_page()\<close> before the \<open>try\<close>, or \<open>page.close()\<close> in the \<open>finally\<close>).
  \<open>detail_dom url\<close>: the loaded page, \<open>None\<close> when \<open>page.goto\<close> or a query raises inside the
  \<open>try\<close> (a navigation timeout is such an exception).
\<close>

record browser =
  context_ok :: bool
  search_surface :: "string \<Rightarrow> surface"
  task_escapes :: "string \<Rightarrow> bool"
  detail_dom :: "string \<Rightarrow> dom option"

text \<open>
  Floating-point numbers are not modelled: \<open>'f\<close> stands for Python's \<open>float\<close>, \<open>py_float\<close> for
  the conversion \<open>float(s)\<close> (\<open>None\<close> when it raises \<open>ValueError\<close>) and \<open>score rating n\<close> for
  \<open>round(rating * math.log(n + 1, 10), 2)\<close>.
\<close>

record 'f numerics =
  py_float :: "string \<Rightarrow> 'f option"
  score :: "'f \<Rightarrow> nat \<Rightarrow> 'f"

text \<open>The dict \<open>place_data\<close>; a key that is not set is \<open>None\<close>.\<close>

record 'f place =
  p_url :: string
  p_placeId :: pyvalue
  p_title :: "pyvalue option"
  p_category :: "pyvalue option"
  p_rating :: "'f option"
  p_reviewsCount :: "nat option"
  p_address :: "pyvalue option"
  p_phone :: "string option"
  p_website :: "pyvalue option"
  p_email :: "string option"
  p_additionalEmails :: "string list option"
  p_socialMedia :: "pydict option"
  p_openingHours :: "pyvalue option"
  p_priceLevel :: "pyvalue option"
  p_images :: "string list option"
  p_reviews :: "review list option"
  p_totalScore :: "'f option"

text \<open>
  \<open>re.search(r'([0-9.]+)', s)\<close> and \<open>re.search(r'([0-9,]+)', s)\<close>: the leftmost longest run of
  characters of the class, \<open>None\<close> when the string has none.
\<close>

definition first_run :: "(char \<Rightarrow> bool) \<Rightarrow> string \<Rightarrow> string option" where
  "first_run P s =
     (let m = takeWhile P (dropWhile (\<lambda>c. \<not> P c) s) in if m = [] then None else Some m)"

definition is_digit :: "char \<Rightarrow> bool" where
  "is_digit c = (let n = (of_char c :: nat) in 48 \<le> n \<and> n \<le> 57)"

text \<open>\<open>int(s)\<close> for a string of ASCII digits; the empty string raises \<open>ValueError\<close>.\<close>

definition py_int :: "string \<Rightarrow> nat option" where
  "py_int s =
     (if s = [] \<or> \<not> list_all is_digit s then None
      else Some (foldl (\<lambda>n c. 10 * n + (of_char c - 48)) 0 s))"

text \<open>\<open>_extract_place_id\<close>: \<open>re.search(r'!1s([^!]+)', url)\<close>.\<close>

fun extract_place_id :: "string \<Rightarrow> pyvalue" where
  "extract_place_id [] = PyNone"
| "extract_place_id (c # cs) =
     (if startswith (c # cs) ''!1s'' \<and> takeWhile (\<lambda>x. x \<noteq> CHR ''!'') (drop 2 cs) \<noteq> []
      then Str (takeWhile (\<lambda>x. x \<noteq> CHR ''!'') (drop 2 cs))
      else extract_place_id cs)"

text \<open>The rating and the review count: \<open>Inl\<close> when the conversion raises, else the key's value if set.\<close>

definition parse_rating :: "'f numerics \<Rightarrow> dom \<Rightarrow> error + 'f option" where
  "parse_rating num d =
     (case rating_elem d of
        None \<Rightarrow> Inr None
      | Some v \<Rightarrow>
          (case truthy v of
             None \<Rightarrow> Inr None
           | Some rating_text \<Rightarrow>
               (case first_run (\<lambda>c. is_digit c \<or> c = CHR ''.'') rating_text of
                  None \<Rightarrow> Inr None
                | Some m \<Rightarrow> (case py_float num m of None \<Rightarrow> Inl ValueError | Some f \<Rightarrow> Inr (Some f)))))"

definition parse_reviews_count :: "dom \<Rightarrow> error + nat option" where
  "parse_reviews_count d =
     (case reviews_elem d of
        None \<Rightarrow> Inr None
      | Some v \<Rightarrow>
          (case truthy v of
             None \<Rightarrow> Inr None
           | Some reviews_text \<Rightarrow>
               (case first_run (\<lambda>c. is_digit c \<or> c = CHR '','') reviews_text of
                  None \<Rightarrow> Inr None
                | Some m \<Rightarrow> (case py_int (remove_all m '','') of
                               None \<Rightarrow> Inl ValueError
                             | Some n \<Rightarrow> Inr (Some n)))))"

text \<open>\<open>x.strip() if x else None\<close> and \<open>x if x else None\<close>.\<close>

definition strip_or_none :: "pyvalue \<Rightarrow> pyvalue" where
  "strip_or_none v = (case truthy v of None \<Rightarrow> PyNone | Some s \<Rightarrow> Str (strip s))"

definition value_or_none :: "pyvalue \<Rightarrow> pyvalue" where
  "value_or_none v = (case truthy v of None \<Rightarrow> PyNone | Some s \<Rightarrow> Str s)"

text \<open>
  The body of the \<open>try\<close> once the page is loaded; \<open>None\<close> when a conversion raises. The
  enrichment is called with \<open>check_contact_page=False\<close> and a timeout of 3 seconds.
\<close>

definition build_place ::
  "'f numerics \<Rightarrow> pylib \<Rightarrow> web \<Rightarrow> string \<Rightarrow> dom \<Rightarrow> bool \<Rightarrow> bool \<Rightarrow> bool \<Rightarrow> 'f place option" where
  "build_place num lib w url d extract_reviews extract_images enrich_contacts =
     (case parse_rating num d of
        Inl e \<Rightarrow> None
      | Inr rating \<Rightarrow>
     (case parse_reviews_count d of
        Inl e \<Rightarrow> None
      | Inr reviewsCount \<Rightarrow>
          (let enrichment_data =
                 (case website_elem d of
                    None \<Rightarrow> None
                  | Some website_url \<Rightarrow>
                      (case truthy website_url of
                         None \<Rightarrow> None
                       | Some u \<Rightarrow> if enrich_contacts
                                   then Some (fst (enrich_from_website lib w (Some u) False 3))
                                   else None))
           in Some
             \<lparr>p_url = url,
              p_placeId = extract_place_id url,
              p_title = title_elem d,
              p_category = category_elem d,
              p_rating = rating,
              p_reviewsCount = reviewsCount,
              p_address = map_option strip_or_none (address_elem d),
              p_phone = (case phone_elem d of
                           None \<Rightarrow> None
                         | Some v \<Rightarrow>
                             map_option
                               (\<lambda>phone_text. strip (remove_all (remove_all phone_text ''Phone: '')
                                                                ''Call phone number''))
                               (truthy v)),
              p_website = website_elem d,
              p_email = (case enrichment_data of
                           None \<Rightarrow> None
                         | Some e \<Rightarrow> (case e_emails e of [] \<Rightarrow> None | x # xs \<Rightarrow> Some x)),
              p_additionalEmails =
                (case enrichment_data of
                   None \<Rightarrow> None
                 | Some e \<Rightarrow> (case e_emails e of
                               [] \<Rightarrow> None
                             | x # xs \<Rightarrow> if length (x # xs) > 1 then Some xs else None)),
              p_socialMedia = (case enrichment_data of
                                 None \<Rightarrow> None
                               | Some e \<Rightarrow> if e_socialMedia e \<noteq> [] then Some (e_socialMedia e)
                                           else None),
              p_openingHours = map_option value_or_none (hours_button d),
              p_priceLevel = map_option strip_or_none (price_elem d),
              p_images = (if extract_images then Some (page_images d) else None),
              p_reviews = (if extract_reviews then Some (page_reviews d) else None),
              p_totalScore = (case (rating, reviewsCount) of
                                (Some r, Some n) \<Rightarrow> Some (score num r n)
                              | _ \<Rightarrow> None)\<rparr>)))"

text \<open>
  What \<open>asyncio.gather(..., return_exceptions=True)\<close> holds for one task: the dict the
  coroutine returned, the \<open>None\<close> it returned from its handler, or the exception that left it.
\<close>

datatype 'r task_result = Returned 'r | ReturnedNone | Raised

definition extract_place_details_optimized ::
  "'f numerics \<Rightarrow> pylib \<Rightarrow> web \<Rightarrow> browser \<Rightarrow> bool \<Rightarrow> bool \<Rightarrow> bool \<Rightarrow> string \<Rightarrow> 'f place task_result" where
  "extract_place_details_optimized num lib w br extract_reviews extract_images enrich_contacts url =
     (if task_escapes br url then Raised
      else (case detail_dom br url of
              None \<Rightarrow> ReturnedNone
            | Some d \<Rightarrow>
                (case build_place num lib w url d extract_reviews extract_images enrich_contacts of
                   None \<Rightarrow> ReturnedNone
                 | Some place_data \<Rightarrow> Returned place_data)))"

section \<open>google\_maps\_optimized.py: the batch extractor\<close>

definition batch_size :: nat where
  "batch_size = 15"

text \<open>\<open>xs[:n]\<close> for an integer \<open>n\<close>: a negative \<open>n\<close> counts from the end.\<close>

definition slice_to :: "int \<Rightarrow> 'a list \<Rightarrow> 'a list" where
  "slice_to n xs = (if n \<ge> 0 then take (nat n) xs else take (length xs - nat (- n)) xs)"

text \<open>
  One window: \<open>gather\<close> returns one result per task, in the order of the tasks; the loop
  after it keeps the results that are dicts.
\<close>

fun keep_dicts :: "'r task_result list \<Rightarrow> 'r list" where
  "keep_dicts [] = []"
| "keep_dicts (Returned r # rs) = r # keep_dicts rs"
| "keep_dicts (_ # rs) = keep_dicts rs"

definition run_window :: "(string \<Rightarrow> 'r task_result) \<Rightarrow> string list \<Rightarrow> 'r list" where
  "run_window task batch = keep_dicts (map task batch)"

text \<open>\<open>for i in range(0, len(places_to_process), batch_size)\<close>, from the index \<open>i\<close> on.\<close>

function extract_batches ::
  "(string \<Rightarrow> 'r task_result) \<Rightarrow> nat \<Rightarrow> string list \<Rightarrow> 'r list \<Rightarrow> 'r list" where
  "extract_batches task i places_to_process all_results =
     (if i < length places_to_process then
        (let batch = take batch_size (drop i places_to_process)
         in extract_batches task (i + batch_size) places_to_process
              (all_results @ run_window task batch))
      else all_results)"
  by pat_completeness auto
termination
  by (relation "measure (\<lambda>(task, i, places, all_results). length places - i)")
     (auto simp: batch_size_def)

declare extract_batches.simps [simp del]

text \<open>
  \<open>scrape\<close> for the search terms, the location and the options read from the config, without
  a progress callback (the parameter's default). A failure of the context or of a search's
  page leaves \<open>scrape\<close> as an exception.
\<close>

fun scrape_terms ::
  "pylib \<Rightarrow> browser \<Rightarrow> (string \<Rightarrow> 'r task_result) \<Rightarrow> string \<Rightarrow> int \<Rightarrow> string list \<Rightarrow> 'r list
     \<Rightarrow> error + 'r list" where
  "scrape_terms lib br task location max_results [] all_results = Inr all_results"
| "scrape_terms lib br task location max_results (term # terms) all_results =
     (let search_query = (if location \<noteq> [] then term @ '' '' @ location else term) in
      case search_places_optimized lib (search_surface br search_query) max_results of
        Inl e \<Rightarrow> Inl e
      | Inr places \<Rightarrow>
          scrape_terms lib br task location max_results terms
            (extract_batches task 0 (slice_to max_results places) all_results))"

definition scrape ::
  "'f numerics \<Rightarrow> pylib \<Rightarrow> web \<Rightarrow> browser \<Rightarrow> string list \<Rightarrow> string \<Rightarrow> int \<Rightarrow> bool \<Rightarrow> bool \<Rightarrow> bool
     \<Rightarrow> error + 'f place list" where
  "scrape num lib w br search_terms location max_results extract_reviews extract_images enrich_contacts =
     (if \<not> context_ok br then Inl BrowserError
      else scrape_terms lib br
             (extract_place_details_optimized num lib w br extract_reviews extract_images enrich_contacts)
             location max_results search_terms [])"

section \<open>Example inputs\<close>

text \<open>
  A page served as plain text that lists six addresses, and a page whose markup mentions a
  Facebook profile outside any anchor. \<open>example_lib\<close> is an instance of the library parameters
  that gives what Python gives on the strings of these two pages: the matches of the e-mail
  pattern in the first text, the group text \<open>acme\<close> of the Facebook pattern in the second, no
  match of any other pattern. Its hash tables keep the insertion order.
\<close>

definition six_emails_text :: string where
  "six_emails_text = ''ann@acme.io bob@acme.io cat@acme.io dan@acme.io eve@acme.io fay@acme.io''"

definition facebook_text :: string where
  "facebook_text = ''Follow us: facebook.com/acme''"

definition example_lib :: pylib where
  "example_lib =
     \<lparr>table_slot = (\<lambda>s x. 0),
      email_findall = (\<lambda>t. if t = six_emails_text
                          then [''ann@acme.io'', ''bob@acme.io'', ''cat@acme.io'', ''dan@acme.io'',
                                ''eve@acme.io'', ''fay@acme.io'']
                          else []),
      phone_findall = (\<lambda>i t. []),
      social_search = (\<lambda>p t. False),
      social_findall = (\<lambda>p t. if p = ''facebook'' \<and> t = facebook_text then [''acme''] else []),
      street_search = (\<lambda>t. False),
      zip_search = (\<lambda>t. False),
      urljoin = (\<lambda>base_url href. Some (base_url @ href)),
      url_origin = (\<lambda>u. Some u)\<rparr>"

definition text_page :: "string \<Rightarrow> page" where
  "text_page t =
     \<lparr>html = t, text_content = t, a_tags = [], email_sections = [], phone_sections = [],
      address_tags = [], ld_scripts = []\<rparr>"

text \<open>A site whose home page is the given page and that answers nothing else.\<close>

definition single_page_web :: "string \<Rightarrow> page \<Rightarrow> web" where
  "single_page_web site pg =
     \<lparr>fetch = (\<lambda>url timeout. if url = site then Some (200, pg) else None),
      probe = (\<lambda>url. None),
      home = (\<lambda>url timeout. if url = site then Some (200, pg) else None)\<rparr>"

text \<open>\<open>isinstance(result, dict)\<close>.\<close>

fun is_dict :: "'r task_result \<Rightarrow> bool" where
  "is_dict (Returned r) = True"
| "is_dict _ = False"

text \<open>
  A search page that shows two places at first and a third one after the first scroll, and
  never fails.
\<close>

definition place_a :: string where
  "place_a = ''https://www.google.com/maps/place/A''"

definition place_b :: string where
  "place_b = ''https://www.google.com/maps/place/B''"

definition place_c :: string where
  "place_c = ''https://www.google.com/maps/place/C''"

definition growing_surface :: surface where
  "growing_surface =
     \<lparr>new_page_ok = True, goto_ok = True,
      visible_links = (\<lambda>k. if k = 0 then Some [Some place_a, Some place_b]
                          else Some [Some place_a, Some place_b, Some place_c]),
      scroll_ok = (\<lambda>k. True)\<rparr>"

text \<open>A search page that shows the same two places at every look.\<close>

definition stalled_surface :: surface where
  "stalled_surface =
     \<lparr>new_page_ok = True, goto_ok = True,
      visible_links = (\<lambda>k. Some [Some place_a, Some place_b]),
      scroll_ok = (\<lambda>k. True)\<rparr>"

text \<open>
  Five detail pages, each with a title only; the page of the third URL does not load. The
  pages carry no rating, so the conversion of \<open>no_numerics\<close> is never called.
\<close>

definition five_urls :: "string list" where
  "five_urls = [''u1'', ''u2'', ''u3'', ''u4'', ''u5'']"

definition titled_dom :: "string \<Rightarrow> dom" where
  "titled_dom t =
     \<lparr>title_elem = Some (Str t), category_elem = None, rating_elem = None, reviews_elem = None,
      address_elem = None, phone_elem = None, website_elem = None, hours_button = None,
      price_elem = None, page_images = [], page_reviews = []\<rparr>"

definition five_browser :: browser where
  "five_browser =
     \<lparr>context_ok = True,
      search_surface = (\<lambda>q. stalled_surface),
      task_escapes = (\<lambda>url. False),
      detail_dom = (\<lambda>url. if url = ''u3'' then None else Some (titled_dom url))\<rparr>"

definition no_numerics :: "unit numerics" where
  "no_numerics = \<lparr>py_float = (\<lambda>s. None), score = (\<lambda>r n. r)\<rparr>"

definition no_web :: web where
  "no_web = \<lparr>fetch = (\<lambda>url timeout. None), probe = (\<lambda>url. None), home = (\<lambda>url timeout. None)\<rparr>"

section \<open>Properties of the Python containers\<close>









lemma sort_key_constant: "sort_key (\<lambda>x. c) xs = xs"
  by (induction xs) (simp_all add: insort_key.simps split: list.splits, (case_tac xs; simp)+)

lemma list_of_set_set: "set (list_of_set lib s) = set s"
  by (simp add: list_of_set_def)

lemma list_of_set_length: "length (list_of_set lib s) = length s"
  by (simp add: list_of_set_def)

lemma list_of_set_distinct: "distinct (list_of_set lib s) = distinct s"
  by (simp add: list_of_set_def)

section \<open>The business-email filter\<close>





section \<open>Merging\<close>




lemma merge_social_distinct:
  "distinct (map fst t) \<Longrightarrow> distinct (map fst (fold merge_social d t))"
  by (induction d arbitrary: t) (auto simp: merge_social_def has_key_def)

section \<open>The empty URL\<close>

text \<open>
  Claim C10. For a missing (\<open>None\<close>) or empty website URL, \<open>enrich_from_website\<close> returns the
  empty result, with \<open>emails\<close>, \<open>phones\<close> and \<open>addresses\<close> empty, no social link and no contact
  page, and makes no request: no page fetch, no probe of a contact path, no fetch of the home
  page.
\<close>

theorem C10_empty_url_empty_result:
  "enrich_from_website lib w None check_contact_page timeout =
     (\<lparr>e_emails = [], e_phones = [], e_socialMedia = [], e_contactPageUrl = None,
       e_addresses = []\<rparr>, []) \<and>
   enrich_from_website lib w (Some []) check_contact_page timeout =
     (\<lparr>e_emails = [], e_phones = [], e_socialMedia = [], e_contactPageUrl = None,
       e_addresses = []\<rparr>, [])"
  by (simp add: enrich_from_website_def empty_enrichment_def)

section \<open>Cardinality of the extraction results\<close>

lemma anchor_step_distinct:
  "distinct (map fst (snd st)) \<Longrightarrow> distinct (map fst (snd (social_anchor_step lib p st)))"
  by (auto simp: social_anchor_step_def has_key_def Let_def)

lemma anchor_fold_distinct:
  "distinct (map fst (snd st)) \<Longrightarrow> distinct (map fst (snd (fold (social_anchor_step lib) ps st)))"
  by (induction ps arbitrary: st) (auto simp: anchor_step_distinct)

lemma social_anchor_distinct:
  "distinct (map fst l) \<Longrightarrow> distinct (map fst (social_anchor lib h l))"
  by (simp add: social_anchor_def anchor_fold_distinct)

lemma social_anchors_distinct:
  "distinct (map fst l) \<Longrightarrow> social_anchors lib b hs l = Inr l' \<Longrightarrow> distinct (map fst l')"
proof (induction hs arbitrary: l)
  case Nil
  then show ?case by simp
next
  case (Cons h hs)
  show ?case
  proof (cases "startswith h ''/''")
    case True
    with Cons.prems(2) obtain joined where j: "urljoin lib b h = Some joined"
      "social_anchors lib b hs (social_anchor lib joined l) = Inr l'"
      by (auto split: option.splits)
    from Cons.IH [OF social_anchor_distinct [OF Cons.prems(1)] j(2)] show ?thesis .
  next
    case False
    with Cons.prems(2) have "social_anchors lib b hs (social_anchor lib h l) = Inr l'"
      by simp
    from Cons.IH [OF social_anchor_distinct [OF Cons.prems(1)] this] show ?thesis .
  qed
qed

lemma html_step_distinct:
  "distinct (map fst l) \<Longrightarrow> distinct (map fst (social_html_step lib m p l))"
  by (auto simp: social_html_step_def has_key_def Let_def split: list.splits)

lemma html_fold_distinct:
  "distinct (map fst l) \<Longrightarrow> distinct (map fst (fold (social_html_step lib m) ps l))"
  by (induction ps arbitrary: l) (auto simp: html_step_distinct)

lemma extract_social_media_distinct:
  "extract_social_media lib pg url = Inr social_links \<Longrightarrow> distinct (map fst social_links)"
  using social_anchors_distinct [of "[]" lib url "map fst (a_tags pg)"]
  by (auto simp: extract_social_media_def html_fold_distinct split: sum.splits)

lemma extract_page_emails: "emails (extract_page lib pg url) = extract_emails lib pg"
  by (cases "extract_social_media lib pg url") (simp_all add: extract_page_def)

lemma extract_page_caps:
  "length (phones (extract_page lib pg url)) \<le> 5 \<and>
   length (addresses (extract_page lib pg url)) \<le> 3 \<and>
   distinct (map fst (socialMedia (extract_page lib pg url)))"
  using extract_social_media_distinct [of lib pg url]
  by (cases "extract_social_media lib pg url")
     (simp_all add: extract_page_def extract_phones_def extract_addresses_def Let_def)

lemma extract_from_page_caps:
  "length (phones (fst (extract_from_page lib w url t))) \<le> 5 \<and>
   length (addresses (fst (extract_from_page lib w url t))) \<le> 3 \<and>
   distinct (map fst (socialMedia (fst (extract_from_page lib w url t))))"
  using extract_page_caps
  by (auto simp: extract_from_page_def empty_page_data_def split: option.splits)

lemma merge_page_fields:
  "e_emails (merge_data acc (source_of_page d)) = e_emails acc @ emails d"
  "e_phones (merge_data acc (source_of_page d)) = e_phones acc @ phones d"
  "e_addresses (merge_data acc (source_of_page d)) = e_addresses acc @ addresses d"
  "e_socialMedia (merge_data acc (source_of_page d)) = fold merge_social (socialMedia d) (e_socialMedia acc)"
  "e_contactPageUrl (merge_data acc (source_of_page d)) = e_contactPageUrl acc"
  by (simp_all add: merge_data_def source_of_page_def Let_def)

lemma finalize_fields:
  "length (e_emails (finalize lib acc)) \<le> 5"
  "length (e_phones (finalize lib acc)) \<le> 5"
  "length (e_addresses (finalize lib acc)) \<le> 3"
  "e_socialMedia (finalize lib acc) = e_socialMedia acc"
  "e_contactPageUrl (finalize lib acc) = e_contactPageUrl acc"
  by (simp_all add: finalize_def)

lemma enrich_unfold:
  "url \<noteq> [] \<Longrightarrow> extract_from_page lib w url t = (d1, r1) \<Longrightarrow>
   enrich_from_website lib w (Some url) check t =
     (let acc = merge_data empty_enrichment (source_of_page d1) in
      if check then
        (case find_contact_page lib w url t of
           (Inl e, r2) \<Rightarrow> (acc, r1 @ r2)
         | (Inr None, r2) \<Rightarrow> (finalize lib acc, r1 @ r2)
         | (Inr (Some cu), r2) \<Rightarrow>
             if cu = [] then (finalize lib acc, r1 @ r2)
             else (finalize lib (merge_data (acc\<lparr>e_contactPageUrl := Some cu\<rparr>)
                                   (source_of_page (fst (extract_from_page lib w cu t)))),
                   r1 @ r2 @ snd (extract_from_page lib w cu t)))
      else (finalize lib acc, r1))"
  by (simp add: enrich_from_website_def Let_def split: prod.splits sum.splits option.splits)

lemma enrich_caps_always:
  "length (e_phones (fst (enrich_from_website lib w website_url check t))) \<le> 5 \<and>
   length (e_addresses (fst (enrich_from_website lib w website_url check t))) \<le> 3 \<and>
   distinct (map fst (e_socialMedia (fst (enrich_from_website lib w website_url check t))))"
proof (cases "website_url = None \<or> website_url = Some []")
  case True
  then show ?thesis by (auto simp: enrich_from_website_def empty_enrichment_def)
next
  case False
  then obtain url where u: "website_url = Some url" "url \<noteq> []" by auto
  obtain d1 r1 where m: "extract_from_page lib w url t = (d1, r1)"
    by (cases "extract_from_page lib w url t")
  have c1: "length (phones d1) \<le> 5" "length (addresses d1) \<le> 3"
    using extract_from_page_caps [of lib w url t] m by simp_all
  define acc where "acc = merge_data empty_enrichment (source_of_page d1)"
  have a: "length (e_phones acc) \<le> 5" "length (e_addresses acc) \<le> 3"
    "distinct (map fst (e_socialMedia acc))"
    using c1 by (simp_all add: acc_def merge_page_fields empty_enrichment_def merge_social_distinct)
  have f: "\<And>x. length (e_phones (finalize lib x)) \<le> 5 \<and> length (e_addresses (finalize lib x)) \<le> 3"
    by (simp add: finalize_fields)
  have g: "\<And>cu d. distinct (map fst (e_socialMedia (merge_data (acc\<lparr>e_contactPageUrl := Some cu\<rparr>) (source_of_page d))))"
    using a(3) by (simp add: merge_page_fields merge_social_distinct)
  show ?thesis
    unfolding u(1) enrich_unfold [OF u(2) m] acc_def [symmetric] Let_def
    using a f g
    by (simp add: finalize_fields(4) split: prod.splits sum.splits option.splits)
qed

lemma enrich_emails_cap:
  assumes "\<forall>u. website_url = Some u \<and> check \<longrightarrow> url_origin lib u \<noteq> None"
  shows "length (e_emails (fst (enrich_from_website lib w website_url check t))) \<le> 5"
proof (cases "website_url = None \<or> website_url = Some []")
  case True
  then show ?thesis by (auto simp: enrich_from_website_def empty_enrichment_def)
next
  case False
  then obtain url where u: "website_url = Some url" "url \<noteq> []" by auto
  obtain d1 r1 where m: "extract_from_page lib w url t = (d1, r1)"
    by (cases "extract_from_page lib w url t")
  have no_raise: "check \<Longrightarrow> \<forall>e r. find_contact_page lib w url t \<noteq> (Inl e, r)"
    using assms u(1)
    by (auto simp: find_contact_page_def split: option.splits prod.splits if_splits)
  show ?thesis
    unfolding u(1) enrich_unfold [OF u(2) m] Let_def
    using no_raise
    by (cases check) (auto simp: finalize_fields(1) split: prod.splits sum.splits option.splits)
qed

lemma example_list_of_set: "list_of_set example_lib s = s"
  by (simp add: list_of_set_def example_lib_def sort_key_constant)

lemma six_business:
  "business_emails [''ann@acme.io'', ''bob@acme.io'', ''cat@acme.io'', ''dan@acme.io'',
                    ''eve@acme.io'', ''fay@acme.io''] =
   [''ann@acme.io'', ''bob@acme.io'', ''cat@acme.io'', ''dan@acme.io'', ''eve@acme.io'', ''fay@acme.io'']"
  by code_simp

lemma six_extract_emails:
  "extract_emails example_lib (text_page six_emails_text) =
   [''ann@acme.io'', ''bob@acme.io'', ''cat@acme.io'', ''dan@acme.io'', ''eve@acme.io'', ''fay@acme.io'']"
proof -
  have f: "email_findall example_lib six_emails_text =
             [''ann@acme.io'', ''bob@acme.io'', ''cat@acme.io'', ''dan@acme.io'', ''eve@acme.io'',
              ''fay@acme.io'']"
    by (simp add: example_lib_def)
  show ?thesis
    by (simp add: extract_emails_def text_page_def mailto_emails_def f six_business
        set_update_def set_add_def example_list_of_set)
qed

lemma six_fetch:
  "fetch (single_page_web ''https://acme.io'' (text_page six_emails_text)) ''https://acme.io'' t
     = Some (200, text_page six_emails_text)"
  by (simp add: single_page_web_def)

lemma six_enrich_emails:
  "e_emails (fst (enrich_from_website example_lib
      (single_page_web ''https://acme.io'' (text_page six_emails_text))
      (Some ''https://acme.io'') False 10)) =
   [''ann@acme.io'', ''bob@acme.io'', ''cat@acme.io'', ''dan@acme.io'', ''eve@acme.io'']"
  by (simp add: enrich_from_website_def extract_from_page_def six_fetch extract_page_emails
      six_extract_emails merge_data_def source_of_page_def empty_enrichment_def finalize_def
      example_list_of_set set_of_list_def set_update_def set_add_def Let_def)

text \<open>
  Claim C1, as the code has it. The result of the single-page extraction
  (\<open>_extract_from_page\<close>) has at most 5 phones, at most 3 addresses and one URL per platform;
  its e-mail list is not cut. The result of \<open>enrich_from_website\<close> has at most 5 phones, at
  most 3 addresses and one URL per platform on every path, and at most 5 e-mails whenever the
  call reaches its clean-up step, that is, unless the contact-page lookup raises (\<open>urlparse\<close>
  rejecting the URL) and the handler returns the accumulator as it is.
\<close>

theorem C1_caps_amended:
  "length (phones (fst (extract_from_page lib w url timeout))) \<le> 5 \<and>
   length (addresses (fst (extract_from_page lib w url timeout))) \<le> 3 \<and>
   distinct (map fst (socialMedia (fst (extract_from_page lib w url timeout)))) \<and>
   length (e_phones (fst (enrich_from_website lib w website_url check timeout))) \<le> 5 \<and>
   length (e_addresses (fst (enrich_from_website lib w website_url check timeout))) \<le> 3 \<and>
   distinct (map fst (e_socialMedia (fst (enrich_from_website lib w website_url check timeout)))) \<and>
   ((\<forall>u. website_url = Some u \<and> check \<longrightarrow> url_origin lib u \<noteq> None) \<longrightarrow>
      length (e_emails (fst (enrich_from_website lib w website_url check timeout))) \<le> 5)"
  using extract_from_page_caps [of lib w url timeout]
    enrich_caps_always [of lib w website_url check timeout]
    enrich_emails_cap [of website_url check lib w timeout]
  by blast

theorem C1_caps_amended_witness:
  "url_origin example_lib ''https://acme.io'' \<noteq> None \<and>
   length (e_emails (fst (enrich_from_website example_lib
      (single_page_web ''https://acme.io'' (text_page six_emails_text))
      (Some ''https://acme.io'') True 10))) \<le> 5 \<and>
   length (e_emails (fst (enrich_from_website example_lib
      (single_page_web ''https://acme.io'' (text_page six_emails_text))
      (Some ''https://acme.io'') False 10))) = 5"
proof -
  have h: "\<forall>u. Some ''https://acme.io'' = Some u \<and> True \<longrightarrow> url_origin example_lib u \<noteq> None"
    by (simp add: example_lib_def)
  have o: "url_origin example_lib ''https://acme.io'' \<noteq> None"
    by (simp add: example_lib_def)
  from h C1_caps_amended [of example_lib
      "single_page_web ''https://acme.io'' (text_page six_emails_text)" "''https://acme.io''" 10
      "Some ''https://acme.io''" True]
  have "length (e_emails (fst (enrich_from_website example_lib
      (single_page_web ''https://acme.io'' (text_page six_emails_text))
      (Some ''https://acme.io'') True 10))) \<le> 5"
    by blast
  with o show ?thesis by (simp add: six_enrich_emails)
qed

text \<open>
  The claim as stated fails for the single-page extraction: a page that lists six business
  addresses yields six e-mails from \<open>_extract_from_page\<close>.
\<close>

theorem C1_single_page_emails_counterexample:
  "\<not> length (emails (fst (extract_from_page example_lib
        (single_page_web ''https://acme.io'' (text_page six_emails_text))
        ''https://acme.io'' 10))) \<le> 5"
  by (simp add: extract_from_page_def six_fetch extract_page_emails six_extract_emails)

section \<open>Merging the same page twice\<close>



section \<open>Social links found in the raw markup\<close>

lemma fb_findall:
  "social_findall example_lib p facebook_text = (if p = ''facebook'' then [''acme''] else [])"
  by (simp add: example_lib_def)

lemma fb_step1:
  "social_html_step example_lib facebook_text ''facebook'' [] = [(''facebook'', ''https://acme'')]"
  by (simp add: social_html_step_def has_key_def fb_findall startswith_def)

lemma fb_step2: "p \<noteq> ''facebook'' \<Longrightarrow> social_html_step example_lib facebook_text p l = l"
  by (simp add: social_html_step_def fb_findall)

text \<open>
  Claim C8 does not hold for a link found in the raw markup. For a page whose markup
  mentions \<open>facebook.com/acme\<close> outside any anchor, \<open>findall\<close> returns the text of the
  pattern's group, \<open>acme\<close>, and the value stored for \<open>facebook\<close> is \<open>https://acme\<close>, not the
  profile URL \<open>https://facebook.com/acme\<close>.
\<close>

theorem C8_raw_markup_stores_handle:
  "extract_social_media example_lib (text_page facebook_text) ''https://acme.io'' =
     Inr [(''facebook'', ''https://acme'')] \<and>
   extract_social_media example_lib (text_page facebook_text) ''https://acme.io'' \<noteq>
     Inr [(''facebook'', ''https://facebook.com/acme'')]"
  by (simp add: extract_social_media_def text_page_def platforms_def fb_step1 fb_step2)

section \<open>The discovery loop\<close>

lemma stalled_iteration:
  assumes "\<forall>ls. visible_links sf (scroll_attempts st) = Some ls \<longrightarrow>
             collect_links ls (place_urls st) = place_urls st"
  shows "(\<exists>st'. scroll_iteration sf mr st = Break st' \<and> place_urls st' = place_urls st \<and>
                scroll_attempts st' = scroll_attempts st) \<or>
         (\<exists>st'. scroll_iteration sf mr st = Next st' \<and> place_urls st' = place_urls st \<and>
                scroll_attempts st' = scroll_attempts st + 1 \<and>
                no_new_results_count st' = no_new_results_count st + 1 \<and>
                no_new_results_count st' < 3)"
  using assms
  by (cases "visible_links sf (scroll_attempts st)") (auto simp: scroll_iteration_def Let_def)

lemma stall_n:
  assumes "\<forall>i<Suc n. \<forall>ls. visible_links sf (scroll_attempts st + i) = Some ls \<longrightarrow>
             collect_links ls (place_urls st) = place_urls st"
    and "no_new_results_count st + Suc n \<ge> 3"
  shows "place_urls (scroll_loop sf mr st) = place_urls st \<and>
         scroll_attempts (scroll_loop sf mr st) \<le> scroll_attempts st + n"
  using assms
proof (induction n arbitrary: st)
  case 0
  then have h: "\<forall>ls. visible_links sf (scroll_attempts st) = Some ls \<longrightarrow>
             collect_links ls (place_urls st) = place_urls st" by simp
  from stalled_iteration [OF h, of mr] 0(2) show ?case
    by (subst (1 2) scroll_loop.simps) auto
next
  case (Suc n)
  then have h: "\<forall>ls. visible_links sf (scroll_attempts st) = Some ls \<longrightarrow>
             collect_links ls (place_urls st) = place_urls st" by (metis add.right_neutral zero_less_Suc)
  from stalled_iteration [OF h, of mr]
  consider (brk) st' where "scroll_iteration sf mr st = Break st'" "place_urls st' = place_urls st"
      "scroll_attempts st' = scroll_attempts st"
    | (nxt) st' where "scroll_iteration sf mr st = Next st'" "place_urls st' = place_urls st"
      "scroll_attempts st' = scroll_attempts st + 1"
      "no_new_results_count st' = no_new_results_count st + 1"
    by blast
  then show ?case
  proof cases
    case brk
    then show ?thesis by (subst (1 2) scroll_loop.simps) auto
  next
    case nxt
    have a: "\<forall>i<Suc n. \<forall>ls. visible_links sf (scroll_attempts st' + i) = Some ls \<longrightarrow>
             collect_links ls (place_urls st') = place_urls st'"
    proof (intro allI impI)
      fix i ls assume "i < Suc n" "visible_links sf (scroll_attempts st' + i) = Some ls"
      then have "Suc i < Suc (Suc n)" "visible_links sf (scroll_attempts st + Suc i) = Some ls"
        by (simp_all add: nxt(3))
      with Suc.prems(1) show "collect_links ls (place_urls st') = place_urls st'"
        unfolding nxt(2) by blast
    qed
    have b: "no_new_results_count st' + Suc n \<ge> 3" using Suc.prems(2) nxt(4) by simp
    from Suc.IH [OF a b] nxt show ?thesis
      by (subst (1 2) scroll_loop.simps) auto
  qed
qed

lemma stalled_collect:
  "collect_links [Some place_a, Some place_b] [place_a, place_b] = [place_a, place_b]"
  by (simp add: collect_links_def add_link_def set_add_def)

lemma first_collect:
  "collect_links [Some place_a, Some place_b] [] = [place_a, place_b]"
  unfolding place_a_def place_b_def
  by (simp add: collect_links_def add_link_def set_add_def startswith_def)

lemma growing_first_pass:
  "scroll_iteration growing_surface 2 initial_scroll_state =
     Break \<lparr>scroll_attempts = 0, no_new_results_count = 0, place_urls = [place_a, place_b]\<rparr>"
  by (simp add: scroll_iteration_def growing_surface_def initial_scroll_state_def first_collect Let_def)

lemma growing_loop:
  "scroll_loop growing_surface 2 initial_scroll_state =
     \<lparr>scroll_attempts = 0, no_new_results_count = 0, place_urls = [place_a, place_b]\<rparr>"
  by (subst scroll_loop.simps) (simp add: growing_first_pass, simp add: initial_scroll_state_def max_scroll_attempts_def)

lemma stalled_run:
  "scroll_loop stalled_surface 10 initial_scroll_state =
     \<lparr>scroll_attempts = 3, no_new_results_count = 3, place_urls = [place_a, place_b]\<rparr>"
proof -
  have s0: "scroll_iteration stalled_surface 10 initial_scroll_state =
     Next \<lparr>scroll_attempts = 1, no_new_results_count = 0, place_urls = [place_a, place_b]\<rparr>"
    by (simp add: scroll_iteration_def stalled_surface_def initial_scroll_state_def first_collect Let_def)
  have s1: "scroll_iteration stalled_surface 10
        \<lparr>scroll_attempts = 1, no_new_results_count = 0, place_urls = [place_a, place_b]\<rparr> =
     Next \<lparr>scroll_attempts = 2, no_new_results_count = 1, place_urls = [place_a, place_b]\<rparr>"
    by (simp add: scroll_iteration_def stalled_surface_def stalled_collect Let_def)
  have s2: "scroll_iteration stalled_surface 10
        \<lparr>scroll_attempts = 2, no_new_results_count = 1, place_urls = [place_a, place_b]\<rparr> =
     Next \<lparr>scroll_attempts = 3, no_new_results_count = 2, place_urls = [place_a, place_b]\<rparr>"
    by (simp add: scroll_iteration_def stalled_surface_def stalled_collect Let_def)
  have s3: "scroll_iteration stalled_surface 10
        \<lparr>scroll_attempts = 3, no_new_results_count = 2, place_urls = [place_a, place_b]\<rparr> =
     Break \<lparr>scroll_attempts = 3, no_new_results_count = 3, place_urls = [place_a, place_b]\<rparr>"
    by (simp add: scroll_iteration_def stalled_surface_def stalled_collect Let_def)
  have l3: "scroll_loop stalled_surface 10
        \<lparr>scroll_attempts = 3, no_new_results_count = 2, place_urls = [place_a, place_b]\<rparr> =
        \<lparr>scroll_attempts = 3, no_new_results_count = 3, place_urls = [place_a, place_b]\<rparr>"
    by (subst scroll_loop.simps, subst s3, simp only: step.case, simp add: max_scroll_attempts_def)
  have l2: "scroll_loop stalled_surface 10
        \<lparr>scroll_attempts = 2, no_new_results_count = 1, place_urls = [place_a, place_b]\<rparr> =
        \<lparr>scroll_attempts = 3, no_new_results_count = 3, place_urls = [place_a, place_b]\<rparr>"
    by (subst scroll_loop.simps, subst s2, simp only: step.case l3, simp add: max_scroll_attempts_def)
  have l1: "scroll_loop stalled_surface 10
        \<lparr>scroll_attempts = 1, no_new_results_count = 0, place_urls = [place_a, place_b]\<rparr> =
        \<lparr>scroll_attempts = 3, no_new_results_count = 3, place_urls = [place_a, place_b]\<rparr>"
    by (subst scroll_loop.simps, subst s1, simp only: step.case l2, simp add: max_scroll_attempts_def)
  show ?thesis
    by (subst scroll_loop.simps, subst s0, simp only: step.case l1,
        simp add: initial_scroll_state_def max_scroll_attempts_def)
qed

text \<open>
  Claim C4. Take the loop at the head of any iteration, in state \<open>st\<close>. If the next three
  looks at the page (the iterations numbered \<open>scroll_attempts st\<close> and the two after it) add
  no URL to the set, the loop ends within these three iterations, whatever \<open>max_results\<close> is:
  the set it ends with is the set held before them, the scroll counter has advanced at most
  twice, so no fourth look is taken, and the list that the function returns from this set
  has exactly its elements. The loop is a total function, so it always returns.
\<close>

theorem C4_stall_terminates:
  "(\<forall>i<3. \<forall>ls. visible_links sf (scroll_attempts st + i) = Some ls \<longrightarrow>
        collect_links ls (place_urls st) = place_urls st) \<Longrightarrow>
   place_urls (scroll_loop sf max_results st) = place_urls st \<and>
   scroll_attempts (scroll_loop sf max_results st) \<le> scroll_attempts st + 2 \<and>
   set (list_of_set lib (place_urls (scroll_loop sf max_results st))) = set (place_urls st)"
  using stall_n [of 2 sf st max_results] by (simp add: numeral_3_eq_3 list_of_set_set)

theorem C4_stall_terminates_witness:
  "collect_links [Some place_a, Some place_b] [place_a, place_b] = [place_a, place_b] \<and>
   place_urls (scroll_loop stalled_surface 10
      \<lparr>scroll_attempts = 1, no_new_results_count = 0, place_urls = [place_a, place_b]\<rparr>) =
     [place_a, place_b] \<and>
   scroll_attempts (scroll_loop stalled_surface 10
      \<lparr>scroll_attempts = 1, no_new_results_count = 0, place_urls = [place_a, place_b]\<rparr>) \<le> 3"
proof -
  let ?st = "\<lparr>scroll_attempts = 1, no_new_results_count = 0, place_urls = [place_a, place_b]\<rparr>"
  have h: "\<forall>i<3. \<forall>ls. visible_links stalled_surface (scroll_attempts ?st + i) = Some ls \<longrightarrow>
        collect_links ls (place_urls ?st) = place_urls ?st"
    by (simp add: stalled_surface_def stalled_collect)
  from C4_stall_terminates [OF h, of 10 example_lib] show ?thesis
    by (simp add: stalled_collect)
qed

section \<open>The target of the discovery loop\<close>

lemma next_below_target:
  "scroll_iteration sf max_results st = Next st' \<Longrightarrow> int (length (place_urls st')) < max_results"
  by (auto simp: scroll_iteration_def Let_def split: option.splits if_splits)

text \<open>
  Claim C3 does not hold on the code. On a page that shows two places at first and a third
  one after the first scroll, a search for 2 results leaves the loop after the first look,
  with two URLs (fewer than 1.5 times 2), no stalled look and no scroll attempt used: the
  \<open>break\<close> on \<open>len(place_urls) >= max_results\<close> fires before the bound \<open>max_results * 1.5\<close> of the
  loop condition can let the loop go on.
\<close>

theorem C3_stops_at_target:
  "scroll_loop growing_surface 2 initial_scroll_state =
     \<lparr>scroll_attempts = 0, no_new_results_count = 0, place_urls = [place_a, place_b]\<rparr> \<and>
   2 * int (length [place_a, place_b]) < 3 * 2 \<and>
   visible_links growing_surface 1 = Some [Some place_a, Some place_b, Some place_c] \<and>
   search_places_optimized example_lib growing_surface 2 = Inr [place_a, place_b]"
proof -
  have v: "visible_links growing_surface 1 = Some [Some place_a, Some place_b, Some place_c]"
    by (simp add: growing_surface_def)
  have ok: "new_page_ok growing_surface" "goto_ok growing_surface"
    by (simp_all add: growing_surface_def)
  have s: "search_places_optimized example_lib growing_surface 2 = Inr [place_a, place_b]"
    by (simp add: search_places_optimized_def ok example_list_of_set growing_loop)
  from growing_loop v s show ?thesis by simp
qed

section \<open>The batch extractor\<close>

lemma keep_dicts_append: "keep_dicts (xs @ ys) = keep_dicts xs @ keep_dicts ys"
  by (induction xs rule: keep_dicts.induct) simp_all

lemma extract_batches_eq:
  "extract_batches task i places acc = acc @ keep_dicts (map task (drop i places))"
proof (induction task i places acc rule: extract_batches.induct)
  case (1 task i places acc)
  show ?case
  proof (cases "i < length places")
    case True
    have split: "take batch_size (drop i places) @ drop (i + batch_size) places = drop i places"
      by (metis add.commute append_take_drop_id drop_drop)
    have "extract_batches task i places acc =
            extract_batches task (i + batch_size) places
              (acc @ run_window task (take batch_size (drop i places)))"
      using True by (subst extract_batches.simps) (simp add: Let_def)
    also have "\<dots> = (acc @ run_window task (take batch_size (drop i places))) @
                       keep_dicts (map task (drop (i + batch_size) places))"
      using "1.IH" [OF True refl] .
    also have "\<dots> = acc @ keep_dicts (map task (take batch_size (drop i places) @ drop (i + batch_size) places))"
      by (simp add: run_window_def keep_dicts_append)
    finally show ?thesis by (simp only: split)
  next
    case False
    then show ?thesis by (subst extract_batches.simps) simp
  qed
qed

lemma details_url:
  "extract_place_details_optimized num lib w br er ei ec url = Returned r \<Longrightarrow> p_url r = url"
  by (auto simp: extract_place_details_optimized_def build_place_def Let_def
      split: if_splits option.splits sum.splits)

lemma keep_dicts_urls:
  "(\<And>u r. task u = Returned r \<Longrightarrow> key r = u) \<Longrightarrow>
   map key (keep_dicts (map task us)) = filter (\<lambda>u. is_dict (task u)) us"
proof (induction us)
  case Nil
  then show ?case by simp
next
  case (Cons u us)
  then show ?case by (cases "task u") auto
qed

lemma failing_no_dict:
  "task_escapes br url \<or> detail_dom br url = None \<Longrightarrow>
   \<not> is_dict (extract_place_details_optimized num lib w br er ei ec url)"
  by (auto simp: extract_place_details_optimized_def)

lemma five_tasks:
  "is_dict (extract_place_details_optimized no_numerics example_lib no_web five_browser False False False u)
     = (u \<noteq> ''u3'')"
  by (simp add: extract_place_details_optimized_def five_browser_def build_place_def titled_dom_def
      parse_rating_def parse_reviews_count_def Let_def)

lemma window_of_five:
  assumes "length batch = 5" "\<not> is_dict (T (batch ! 2))" "\<forall>i<5. i \<noteq> 2 \<longrightarrow> is_dict (T (batch ! i))"
  shows "length (run_window T batch) = 4 \<and>
         map Returned (run_window T batch) = [T (batch ! 0), T (batch ! 1), T (batch ! 3), T (batch ! 4)]"
proof -
  from assms(1) obtain a b c d e where batch: "batch = [a, b, c, d, e]"
    by (auto simp: length_Suc_conv numeral_eq_Suc)
  have "is_dict (T a)" "is_dict (T b)" "is_dict (T d)" "is_dict (T e)"
    using assms(3) [rule_format, of 0] assms(3) [rule_format, of 1]
      assms(3) [rule_format, of 3] assms(3) [rule_format, of 4] by (simp_all add: batch)
  moreover have "\<not> is_dict (T c)" using assms(2) by (simp add: batch)
  ultimately show ?thesis
    by (cases "T a"; cases "T b"; cases "T c"; cases "T d"; cases "T e")
       (simp_all add: batch run_window_def)
qed

lemma keep_dicts_returned: "map Returned (keep_dicts rs) = filter is_dict rs"
  by (induction rs rule: keep_dicts.induct) simp_all

section \<open>Failure isolation in a window\<close>

lemma five_records:
  "map p_url (run_window (extract_place_details_optimized no_numerics example_lib no_web five_browser
       False False False) five_urls) = [''u1'', ''u2'', ''u4'', ''u5'']"
proof -
  let ?T = "extract_place_details_optimized no_numerics example_lib no_web five_browser False False False"
  have "map p_url (keep_dicts (map ?T five_urls)) = filter (\<lambda>u. is_dict (?T u)) five_urls"
    by (rule keep_dicts_urls) (rule details_url)
  also have "\<dots> = [''u1'', ''u2'', ''u4'', ''u5'']"
    unfolding five_tasks by (simp add: five_urls_def)
  finally show ?thesis by (simp add: run_window_def)
qed

text \<open>
  Claim C2. For every window, the records it contributes are exactly the dicts that its
  tasks returned, in the order of the tasks. A task whose page does not load (an exception or
  a timeout inside the \<open>try\<close>, which returns \<open>None\<close>) or whose exception leaves the coroutine
  gives no dict. In a window of 5 URLs in which the third task gives no dict and the other
  four do, the window contributes 4 records, those of the first, second, fourth and fifth URL,
  and these are what the batch loop returns for a list of these 5 URLs.
\<close>

theorem C2_batch_isolation:
  "map Returned (run_window (extract_place_details_optimized num lib w br er ei ec) batch) =
     filter is_dict (map (extract_place_details_optimized num lib w br er ei ec) batch) \<and>
   (\<forall>url. task_escapes br url \<or> detail_dom br url = None \<longrightarrow>
      \<not> is_dict (extract_place_details_optimized num lib w br er ei ec url)) \<and>
   (length batch = 5 \<and>
    \<not> is_dict (extract_place_details_optimized num lib w br er ei ec (batch ! 2)) \<and>
    (\<forall>i<5. i \<noteq> 2 \<longrightarrow> is_dict (extract_place_details_optimized num lib w br er ei ec (batch ! i)))
    \<longrightarrow> length (run_window (extract_place_details_optimized num lib w br er ei ec) batch) = 4 \<and>
        map p_url (run_window (extract_place_details_optimized num lib w br er ei ec) batch) =
          [batch ! 0, batch ! 1, batch ! 3, batch ! 4] \<and>
        extract_batches (extract_place_details_optimized num lib w br er ei ec) 0 batch [] =
          run_window (extract_place_details_optimized num lib w br er ei ec) batch)"
proof -
  let ?T = "extract_place_details_optimized num lib w br er ei ec"
  have a: "map Returned (run_window ?T batch) = filter is_dict (map ?T batch)"
    by (simp add: run_window_def keep_dicts_returned)
  have b: "\<forall>url. task_escapes br url \<or> detail_dom br url = None \<longrightarrow> \<not> is_dict (?T url)"
    using failing_no_dict by blast
  have u: "map p_url (run_window ?T batch) = filter (\<lambda>u. is_dict (?T u)) batch"
    unfolding run_window_def by (rule keep_dicts_urls) (rule details_url)
  have c: "length (run_window ?T batch) = 4 \<and>
           map p_url (run_window ?T batch) = [batch ! 0, batch ! 1, batch ! 3, batch ! 4] \<and>
           extract_batches ?T 0 batch [] = run_window ?T batch"
    if h: "length batch = 5" "\<not> is_dict (?T (batch ! 2))" "\<forall>i<5. i \<noteq> 2 \<longrightarrow> is_dict (?T (batch ! i))"
  proof -
    from h(1) obtain a b c d e where batch: "batch = [a, b, c, d, e]"
      by (auto simp: length_Suc_conv numeral_eq_Suc)
    have d: "is_dict (?T a)" "is_dict (?T b)" "\<not> is_dict (?T c)" "is_dict (?T d)" "is_dict (?T e)"
      using h(3) [rule_format, of 0] h(3) [rule_format, of 1] h(2)
        h(3) [rule_format, of 3] h(3) [rule_format, of 4] by (simp_all add: batch)
    have "length (run_window ?T batch) = 4"
      using window_of_five [OF h] by blast
    moreover have "map p_url (run_window ?T batch) = [batch ! 0, batch ! 1, batch ! 3, batch ! 4]"
      unfolding u using d by (simp add: batch)
    moreover have "extract_batches ?T 0 batch [] = run_window ?T batch"
      by (simp add: extract_batches_eq run_window_def)
    ultimately show ?thesis by blast
  qed
  from a b c show ?thesis by blast
qed

theorem C2_batch_isolation_witness:
  "length five_urls = 5 \<and> detail_dom five_browser (five_urls ! 2) = None \<and>
   \<not> is_dict (extract_place_details_optimized no_numerics example_lib no_web five_browser
               False False False (five_urls ! 2)) \<and>
   is_dict (extract_place_details_optimized no_numerics example_lib no_web five_browser
               False False False (five_urls ! 0)) \<and>
   length (run_window (extract_place_details_optimized no_numerics example_lib no_web five_browser
               False False False) five_urls) = 4 \<and>
   map p_url (run_window (extract_place_details_optimized no_numerics example_lib no_web five_browser
               False False False) five_urls) = [''u1'', ''u2'', ''u4'', ''u5'']"
proof -
  let ?T = "extract_place_details_optimized no_numerics example_lib no_web five_browser False False False"
  have l: "length five_urls = 5" by (simp add: five_urls_def)
  have n: "detail_dom five_browser (five_urls ! 2) = None"
    by (simp add: five_urls_def five_browser_def)
  have f: "\<not> is_dict (?T (five_urls ! 2))"
    by (simp add: five_tasks five_urls_def)
  have o: "\<forall>i<5. i \<noteq> 2 \<longrightarrow> is_dict (?T (five_urls ! i))"
  proof (intro allI impI)
    fix i :: nat assume "i < 5" "i \<noteq> 2"
    then have "i = 0 \<or> i = 1 \<or> i = 3 \<or> i = 4" by arith
    then show "is_dict (?T (five_urls ! i))"
      by (auto simp: five_tasks five_urls_def)
  qed
  from C2_batch_isolation [of no_numerics example_lib no_web five_browser False False False five_urls]
    l f o
  have "length (run_window ?T five_urls) = 4" by blast
  moreover have "is_dict (?T (five_urls ! 0))" using o by simp
  ultimately show ?thesis using l n f five_records by simp
qed

section \<open>Order of the returned records\<close>

text \<open>
  Claim C5. For every list of discovered URLs, the URLs of the records that the batch loop
  returns are the URLs of \<open>places[:max_results]\<close> whose task returned a dict, in the order of
  that list: a subsequence of it. For a non-negative \<open>max_results\<close> the slice is the list cut to
  its first \<open>max_results\<close> elements. The order is a function of the list and of which tasks
  gave a dict; nothing else enters it. For one search term, \<open>scrape\<close> returns exactly this
  list for the places that the search found.
\<close>

theorem C5_discovery_order_kept:
  "map p_url (extract_batches (extract_place_details_optimized num lib w br er ei ec) 0
                (slice_to max_results places) []) =
     filter (\<lambda>u. is_dict (extract_place_details_optimized num lib w br er ei ec u))
       (slice_to max_results places) \<and>
   subseq (map p_url (extract_batches (extract_place_details_optimized num lib w br er ei ec) 0
                        (slice_to max_results places) []))
          (slice_to max_results places) \<and>
   (0 \<le> max_results \<longrightarrow> slice_to max_results places = take (nat max_results) places) \<and>
   scrape_terms lib br (extract_place_details_optimized num lib w br er ei ec) location max_results
       [term] [] =
     (case search_places_optimized lib
             (search_surface br (if location \<noteq> [] then term @ '' '' @ location else term))
             max_results of
        Inl e \<Rightarrow> Inl e
      | Inr found \<Rightarrow>
          Inr (extract_batches (extract_place_details_optimized num lib w br er ei ec) 0
                 (slice_to max_results found) []))"
proof -
  let ?T = "extract_place_details_optimized num lib w br er ei ec"
  have a: "map p_url (extract_batches ?T 0 (slice_to max_results places) []) =
             filter (\<lambda>u. is_dict (?T u)) (slice_to max_results places)"
    unfolding extract_batches_eq by (simp, rule keep_dicts_urls, rule details_url)
  have b: "subseq (map p_url (extract_batches ?T 0 (slice_to max_results places) []))
             (slice_to max_results places)"
    unfolding a by (rule subseq_filter_left)
  have c: "0 \<le> max_results \<longrightarrow> slice_to max_results places = take (nat max_results) places"
    by (simp add: slice_to_def)
  have d: "scrape_terms lib br ?T location max_results [term] [] =
     (case search_places_optimized lib
             (search_surface br (if location \<noteq> [] then term @ '' '' @ location else term))
             max_results of
        Inl e \<Rightarrow> Inl e
      | Inr found \<Rightarrow> Inr (extract_batches ?T 0 (slice_to max_results found) []))"
    by (simp add: Let_def split: sum.splits)
  from a b c d show ?thesis by blast
qed

theorem C5_discovery_order_kept_witness:
  "(0::int) \<le> 4 \<and>
   slice_to 4 five_urls = take (nat 4) five_urls \<and>
   map p_url (extract_batches (extract_place_details_optimized no_numerics example_lib no_web
                five_browser False False False) 0 (slice_to 4 five_urls) []) = [''u1'', ''u2'', ''u4'']"
proof -
  let ?T = "extract_place_details_optimized no_numerics example_lib no_web five_browser False False False"
  have h: "(0::int) \<le> 4" by simp
  from C5_discovery_order_kept [of no_numerics example_lib no_web five_browser False False False 4 five_urls]
  have s: "slice_to 4 five_urls = take (nat 4) five_urls"
    and m: "map p_url (extract_batches ?T 0 (slice_to 4 five_urls) []) =
              filter (\<lambda>u. is_dict (?T u)) (slice_to 4 five_urls)"
    using h by blast+
  have "filter (\<lambda>u. is_dict (?T u)) (slice_to 4 five_urls) = [''u1'', ''u2'', ''u4'']"
    unfolding five_tasks by (simp add: slice_to_def five_urls_def)
  with s m h show ?thesis by simp
qed

section \<open>The total score\<close>

text \<open>
  The key \<open>totalScore\<close> of a record is set exactly when \<open>rating\<close> and \<open>reviewsCount\<close> are both
  set, and then to the value that the floating-point expression of the source gives for them.
  The value itself is a computation on Python floats, which this development does not model.
\<close>

lemma total_score_present_iff:
  assumes "build_place num lib w url d er ei ec = Some place_data"
  shows "(p_totalScore place_data \<noteq> None \<longleftrightarrow>
            p_rating place_data \<noteq> None \<and> p_reviewsCount place_data \<noteq> None) \<and>
         (\<forall>r n. p_rating place_data = Some r \<and> p_reviewsCount place_data = Some n \<longrightarrow>
            p_totalScore place_data = Some (score num r n))"
  using assms
  by (auto simp: build_place_def Let_def split: sum.splits option.splits)

end
